theory Spec2Isabelle
  imports Complex_Main
begin

section \<open>The lettuce growth model of \<^verbatim>\<open>base_lettuce_model.py\<close>\<close>

text \<open>
  The development embeds \<^verbatim>\<open>_beer_lambert\<close>, \<^verbatim>\<open>_model_core\<close> and the class
  \<^verbatim>\<open>BaseLettuceMechanisticModel\<close>.

  Numbers. The source computes with 64-bit floats; here a float is idealised as a
  \<^typ>\<open>real\<close>: rounding, overflow to infinity and NaN are not represented. The
  idealisation is faithful where float arithmetic stays finite; for \<^verbatim>\<open>**\<close> that means
  a positive base, or base zero with a non-negative exponent. The \<^verbatim>\<open>int\<close> arguments of
  the constructor are \<^typ>\<open>int\<close>.

  Exceptions. Every \<^verbatim>\<open>raise\<close> of the source is a value of \<open>error\<close>. The rate
  function is compiled with \<^verbatim>\<open>@jit(nopython=True)\<close>, whose default error model is
  Python's: a scalar division by zero raises \<^verbatim>\<open>ZeroDivisionError\<close>. A method of
  the class returns a pair: the exception it raised, if any, and the object as the
  method left it.
\<close>

subsection \<open>Exceptions\<close>

text \<open>The texts of the \<^verbatim>\<open>ValueError\<close>s; a message that prints a Python set carries that set.\<close>

datatype message =
    Plant_dry_weight_must_be_positive
  | Plant_density_must_be_positive
  | Missing_required_parameters "string set"
  | Unknown_parameters "string set"
  | Light_interception_must_be_between_0_and_1
  | Not_enough_values_to_unpack

datatype error =
    ValueError message
  | KeyError string
  | IndexError
  | ZeroDivisionError

subsection \<open>The object\<close>

type_synonym vec2 = "real \<times> real"

type_synonym control = "real \<times> real \<times> real \<times> real"

record model =
  parameters :: "string \<rightharpoonup> real"
  light_interception_method :: int
  external_light_interception :: real
  state0 :: real
  state :: vec2
  h :: int
  plant_density :: int
  params_array :: "real list"

text \<open>The set literal of \<^verbatim>\<open>_validate_inputs\<close>, in its order.\<close>

definition required_params :: "string set" where
  "required_params =
     {''c_a'', ''c_b'', ''c_gr_max'', ''c_r'', ''c_resp_sht'', ''c_resp_rt'',
      ''c_Q10_gr'', ''c_Q10_resp'', ''c_t'', ''c_k'', ''c_lar'', ''c_epsilon'',
      ''c_w'', ''c_R'', ''c_Q10_R'', ''g_bnd'', ''g_stm'', ''c_car_1'',
      ''c_car_2'', ''c_car_3''}"

text \<open>The list literal of \<^verbatim>\<open>_init_params_array\<close>, in its order.\<close>

definition param_order :: "string list" where
  "param_order =
     [''c_R'', ''c_Q10_R'', ''c_epsilon'', ''c_w'', ''g_bnd'', ''g_stm'',
      ''c_car_1'', ''c_car_2'', ''c_car_3'', ''c_gr_max'', ''c_r'',
      ''c_resp_sht'', ''c_resp_rt'', ''c_Q10_gr'', ''c_Q10_resp'',
      ''c_t'', ''c_k'', ''c_lar'', ''c_a'', ''c_b'']"

subsection \<open>Validation and construction\<close>

definition validate_inputs :: "real \<Rightarrow> int \<Rightarrow> (string \<rightharpoonup> real) \<Rightarrow> error option" where
  "validate_inputs plant_dw plant_density' parameters' =
     (if plant_dw \<le> 0 then Some (ValueError Plant_dry_weight_must_be_positive)
      else if plant_density' \<le> 0 then Some (ValueError Plant_density_must_be_positive)
      else let missing = required_params - dom parameters'
           in if missing \<noteq> {} then Some (ValueError (Missing_required_parameters missing))
              else None)"

text \<open>\<^verbatim>\<open>[self.parameters[k] for k in [...]]\<close>: the first absent key raises \<^verbatim>\<open>KeyError\<close>.\<close>

fun lookup_all :: "(string \<rightharpoonup> real) \<Rightarrow> string list \<Rightarrow> error + real list" where
  "lookup_all ps [] = Inr []"
| "lookup_all ps (k # ks) =
     (case ps k of
        None \<Rightarrow> Inl (KeyError k)
      | Some v \<Rightarrow> (case lookup_all ps ks of Inl e \<Rightarrow> Inl e | Inr vs \<Rightarrow> Inr (v # vs)))"

definition init_params_array :: "model \<Rightarrow> error option \<times> model" where
  "init_params_array self =
     (case lookup_all (parameters self) param_order of
        Inl e \<Rightarrow> (Some e, self)
      | Inr vs \<Rightarrow> (None, self\<lparr>params_array := vs @ [external_light_interception self]\<rparr>))"

text \<open>
  \<^verbatim>\<open>__init__\<close>. An exception leaves no object behind, so the constructor returns
  either the error or the new object. Before \<^verbatim>\<open>_init_params_array\<close> runs the attribute
  \<^verbatim>\<open>params_array\<close> does not exist; the record holds the empty list there.
\<close>

definition init :: "real \<Rightarrow> int \<Rightarrow> (string \<rightharpoonup> real) \<Rightarrow> int \<Rightarrow> int \<Rightarrow> error + model" where
  "init plant_dw plant_density' parameters' control_rate light_interception_method' =
     (case validate_inputs plant_dw plant_density' parameters' of
        Some e \<Rightarrow> Inl e
      | None \<Rightarrow>
          (case init_params_array
                  \<lparr>parameters = parameters',
                   light_interception_method = light_interception_method',
                   external_light_interception = 0,
                   state0 = plant_dw,
                   state = (plant_dw * 0.2, plant_dw * 0.8),
                   h = control_rate * 60,
                   plant_density = plant_density',
                   params_array = []\<rparr> of
             (Some e, _) \<Rightarrow> Inl e
           | (None, self) \<Rightarrow> Inr self))"

subsection \<open>The other methods but \<^verbatim>\<open>step\<close>\<close>

text \<open>\<^verbatim>\<open>self.params_array[-1] = value\<close> raises \<^verbatim>\<open>IndexError\<close> on an empty array.\<close>

definition set_external_light_interception :: "real \<Rightarrow> model \<Rightarrow> error option \<times> model" where
  "set_external_light_interception v self =
     (if \<not> (0 \<le> v \<and> v \<le> 1)
      then (Some (ValueError Light_interception_must_be_between_0_and_1), self)
      else let self1 = self\<lparr>external_light_interception := v\<rparr>
           in if params_array self1 = [] then (Some IndexError, self1)
              else (None, self1\<lparr>params_array :=
                      (params_array self1)[length (params_array self1) - 1 := v]\<rparr>))"

text \<open>\<^verbatim>\<open>dict.update\<close> is \<^term>\<open>(++)\<close>: the new value wins on a key both have.\<close>

definition update_parameters :: "(string \<rightharpoonup> real) \<Rightarrow> model \<Rightarrow> error option \<times> model" where
  "update_parameters new_params self =
     (let unknown_params = dom new_params - dom (parameters self)
      in if unknown_params \<noteq> {}
         then (Some (ValueError (Unknown_parameters unknown_params)), self)
         else init_params_array (self\<lparr>parameters := parameters self ++ new_params\<rparr>))"

definition reset :: "model \<Rightarrow> error option \<times> model" where
  "reset self = (None, self\<lparr>state := (state0 self * 0.2, state0 self * 0.8)\<rparr>)"

subsection \<open>Arithmetic of the rate function\<close>

text \<open>
  Arrays of two floats: \<^verbatim>\<open>a + b\<close>, \<^verbatim>\<open>c * a\<close>, \<^verbatim>\<open>a * c\<close> and \<^verbatim>\<open>a / c\<close>
  work slot by slot.
\<close>

definition vadd :: "vec2 \<Rightarrow> vec2 \<Rightarrow> vec2" where
  "vadd a b = (fst a + fst b, snd a + snd b)"

definition smul :: "real \<Rightarrow> vec2 \<Rightarrow> vec2" where
  "smul c a = (c * fst a, c * snd a)"

definition vmul :: "vec2 \<Rightarrow> real \<Rightarrow> vec2" where
  "vmul a c = (fst a * c, snd a * c)"

definition vdiv :: "vec2 \<Rightarrow> real \<Rightarrow> vec2" where
  "vdiv a c = (fst a / c, snd a / c)"

text \<open>Scalar \<^verbatim>\<open>a / b\<close> in compiled code: a zero divisor raises.\<close>

definition truediv :: "real \<Rightarrow> real \<Rightarrow> error + real" where
  "truediv a b = (if b = 0 then Inl ZeroDivisionError else Inr (a / b))"

text \<open>
  \<^verbatim>\<open>a ** b\<close> on floats. \<^term>\<open>(powr)\<close> gives \<open>0\<close> for \<open>0 powr 0\<close>, the floats give
  \<open>1\<close>; elsewhere on the domain of the idealisation the two agree.
\<close>

definition fpow :: "real \<Rightarrow> real \<Rightarrow> real" where
  "fpow a b = (if b = 0 then 1 else a powr b)"

text \<open>Sequencing of statements that may raise.\<close>

definition raise_or :: "error + 'a \<Rightarrow> ('a \<Rightarrow> error + 'b) \<Rightarrow> error + 'b" where
  "raise_or r f = (case r of Inl e \<Rightarrow> Inl e | Inr v \<Rightarrow> f v)"

definition beer_lambert :: "real \<Rightarrow> real \<Rightarrow> real" where
  "beer_lambert lai k = - exp (- k * lai) + 1"

text \<open>
  The \<^verbatim>\<open>if\<close>/\<^verbatim>\<open>else\<close> of \<^verbatim>\<open>_model_core\<close> that assigns \<^verbatim>\<open>light_interception\<close>,
  as a function of what it reads: the scaled state, the coefficients and the flag.
\<close>

definition light_interception :: "vec2 \<Rightarrow> real list \<Rightarrow> int \<Rightarrow> real" where
  "light_interception x params_array' light_interception_method' =
     (let c_t = params_array' ! 15; c_k = params_array' ! 16; c_lar = params_array' ! 17;
          external_li = params_array' ! 20
      in if light_interception_method' = 0
         then (let lai = c_lar * (1 - c_t) * snd x in beer_lambert lai c_k)
         else external_li)"

text \<open>
  \<^verbatim>\<open>_model_core\<close>. The nine slice unpackings need 20 slots (\<^verbatim>\<open>ValueError\<close>
  otherwise) and \<^verbatim>\<open>params_array[20]\<close> a 21st; slots beyond are not read. The
  last statement, \<^verbatim>\<open>ki / pd\<close>, divides an array and does not raise; with \<open>pd = 0\<close> the
  function has raised before it, at the quotient of \<^verbatim>\<open>rgr\<close>.
\<close>

definition model_core :: "vec2 \<Rightarrow> control \<Rightarrow> real list \<Rightarrow> int \<Rightarrow> error + vec2" where
  "model_core x u params_array' light_interception_method' =
     (case u of (t, r, co2, pd) \<Rightarrow>
      let x' = vmul x pd in
      if length params_array' < 20 then Inl (ValueError Not_enough_values_to_unpack)
      else if length params_array' < 21 then Inl IndexError
      else
      let c_R = params_array' ! 0; c_Q10_R = params_array' ! 1;
          c_epsilon = params_array' ! 2; c_w = params_array' ! 3;
          g_bnd = params_array' ! 4; g_stm = params_array' ! 5;
          c_car_1 = params_array' ! 6; c_car_2 = params_array' ! 7;
          c_car_3 = params_array' ! 8;
          c_gr_max = params_array' ! 9; c_r = params_array' ! 10;
          c_resp_sht = params_array' ! 11; c_resp_rt = params_array' ! 12;
          c_Q10_gr = params_array' ! 13; c_Q10_resp = params_array' ! 14;
          c_t = params_array' ! 15;
          c_a = params_array' ! 18; c_b = params_array' ! 19;
          R = c_R * fpow c_Q10_R ((t - 20) / 10)
      in
      raise_or (truediv (c_epsilon * (co2 - R)) (co2 + 2 * R)) (\<lambda>lue.
      raise_or (truediv 1 g_bnd) (\<lambda>r_bnd.
      raise_or (truediv 1 g_stm) (\<lambda>r_stm.
      raise_or (truediv 1 (c_car_1 * t\<^sup>2 + c_car_2 * t + c_car_3)) (\<lambda>r_car.
      raise_or (truediv 1 (r_bnd + r_stm + r_car)) (\<lambda>g_co2.
      let light_interception' = light_interception x' params_array' light_interception_method' in
      raise_or (truediv (lue * r * g_co2 * c_w * (co2 - R))
                        (lue * r + g_co2 * c_w * (co2 - R))) (\<lambda>f_photo_max.
      let f_photo = f_photo_max * light_interception' in
      raise_or (truediv (fst x') (c_r * snd x' + fst x')) (\<lambda>q.
      let rgr = c_gr_max * q * fpow c_Q10_gr ((t - 20) / 10);
          f_resp = (c_resp_sht * (1 - c_t) * snd x' + c_resp_rt * c_t * snd x')
                     * fpow c_Q10_resp ((t - 25) / 10)
      in
      raise_or (truediv (1 - c_b) c_b) (\<lambda>growth_cost.
      let ki = (c_a * f_photo - rgr * snd x' - f_resp - growth_cost * rgr * snd x',
                rgr * snd x')
      in Inr (vdiv ki pd))))))))))"

subsection \<open>\<^verbatim>\<open>step\<close>\<close>

text \<open>
  The four stages read \<^verbatim>\<open>self.state\<close>, \<^verbatim>\<open>self.h\<close> and \<^verbatim>\<open>self.params_array\<close>;
  the only assignment is the last statement, so a stage that raises leaves the object
  as it was.
\<close>

definition step :: "control \<Rightarrow> model \<Rightarrow> error option \<times> model" where
  "step action self =
     (let method_flag = light_interception_method self in
      case model_core (state self) action (params_array self) method_flag of
        Inl e \<Rightarrow> (Some e, self)
      | Inr k1 \<Rightarrow>
      (case model_core (vadd (state self) (smul (real_of_int (h self) / 2) k1))
              action (params_array self) method_flag of
        Inl e \<Rightarrow> (Some e, self)
      | Inr k2 \<Rightarrow>
      (case model_core (vadd (state self) (smul (real_of_int (h self) / 2) k2))
              action (params_array self) method_flag of
        Inl e \<Rightarrow> (Some e, self)
      | Inr k3 \<Rightarrow>
      (case model_core (vadd (state self) (smul (real_of_int (h self)) k3))
              action (params_array self) method_flag of
        Inl e \<Rightarrow> (Some e, self)
      | Inr k4 \<Rightarrow>
          (None, self\<lparr>state :=
             vadd (state self)
               (smul (real_of_int (h self) / 6)
                  (vadd (vadd (vadd k1 (smul 2 k2)) (smul 2 k3)) k4))\<rparr>)))))"

subsection \<open>Runs of calls\<close>

text \<open>
  A client calls the methods one after another on the same object; a call that raises
  leaves the object as the method left it, and the client goes on.
\<close>

datatype call =
    Step control
  | Update_parameters "string \<rightharpoonup> real"
  | Set_external_light_interception real
  | Reset

fun exec :: "call \<Rightarrow> model \<Rightarrow> error option \<times> model" where
  "exec (Step action) self = step action self"
| "exec (Update_parameters new_params) self = update_parameters new_params self"
| "exec (Set_external_light_interception v) self = set_external_light_interception v self"
| "exec Reset self = reset self"

fun run :: "call list \<Rightarrow> model \<Rightarrow> model" where
  "run [] self = self"
| "run (c # cs) self = run cs (snd (exec c self))"

subsection \<open>What the specification says of the rate function and of the coefficient vector\<close>

text \<open>
  The closed form of the rate, written after sections 4.3 and 6 of the specification
  (not after the code): the pools \<open>X0\<close>, \<open>X1\<close> are the state scaled by the density,
  the nine steps follow, and the coefficients are read by their position in the
  specification's list.
\<close>

definition rate_reference :: "vec2 \<Rightarrow> control \<Rightarrow> real list \<Rightarrow> int \<Rightarrow> vec2" where
  "rate_reference x u c mode =
     (case u of (temp, rad, co2, pop_density) \<Rightarrow>
      let X0 = fst x * pop_density; X1 = snd x * pop_density;
          c_R = c ! 0; c_Q10_R = c ! 1; c_epsilon = c ! 2; c_w = c ! 3;
          g_bnd = c ! 4; g_stm = c ! 5; c_car_1 = c ! 6; c_car_2 = c ! 7; c_car_3 = c ! 8;
          c_gr_max = c ! 9; c_r = c ! 10; c_resp_sht = c ! 11; c_resp_rt = c ! 12;
          c_Q10_gr = c ! 13; c_Q10_resp = c ! 14; c_t = c ! 15; c_k = c ! 16;
          c_lar = c ! 17; c_a = c ! 18; c_b = c ! 19; override = c ! 20;
          R = c_R * fpow c_Q10_R ((temp - 20) / 10);
          lue = c_epsilon * (co2 - R) / (co2 + 2 * R);
          g_co2 = 1 / (1 / g_bnd + 1 / g_stm + 1 / (c_car_1 * temp\<^sup>2 + c_car_2 * temp + c_car_3));
          interception =
            (if mode = 0 then 1 - exp (- c_k * (c_lar * (1 - c_t) * X1)) else override);
          f_photo_max =
            (lue * rad * g_co2 * c_w * (co2 - R)) / (lue * rad + g_co2 * c_w * (co2 - R));
          f_photo = f_photo_max * interception;
          rgr = c_gr_max * (X0 / (c_r * X1 + X0)) * fpow c_Q10_gr ((temp - 20) / 10);
          f_resp = (c_resp_sht * (1 - c_t) * X1 + c_resp_rt * c_t * X1)
                     * fpow c_Q10_resp ((temp - 25) / 10)
      in ((c_a * f_photo - rgr * X1 - f_resp - ((1 - c_b) / c_b) * rgr * X1) / pop_density,
          (rgr * X1) / pop_density))"

text \<open>The eight scalar divisors of the closed form, in the order of its steps.\<close>

definition divisors :: "vec2 \<Rightarrow> control \<Rightarrow> real list \<Rightarrow> real list" where
  "divisors x u c =
     (case u of (temp, rad, co2, pop_density) \<Rightarrow>
      let X0 = fst x * pop_density; X1 = snd x * pop_density;
          R = c ! 0 * fpow (c ! 1) ((temp - 20) / 10);
          lue = c ! 2 * (co2 - R) / (co2 + 2 * R);
          carboxylation = c ! 6 * temp\<^sup>2 + c ! 7 * temp + c ! 8;
          resistance = 1 / (c ! 4) + 1 / (c ! 5) + 1 / carboxylation;
          g_co2 = 1 / resistance
      in [co2 + 2 * R, c ! 4, c ! 5, carboxylation, resistance,
          lue * rad + g_co2 * (c ! 3) * (co2 - R), (c ! 10) * X1 + X0, c ! 19])"

text \<open>
  The integrator of section 4.4, for a rate function \<open>f\<close> that may raise: the four
  stage values, and the next state they give. \<open>hh\<close> is the interval in seconds.
\<close>

definition rk4_stages ::
  "real \<Rightarrow> (vec2 \<Rightarrow> error + vec2) \<Rightarrow> vec2 \<Rightarrow> vec2 \<times> vec2 \<times> vec2 \<times> vec2 \<Rightarrow> bool" where
  "rk4_stages hh f x ks =
     (case ks of (k1, k2, k3, k4) \<Rightarrow>
        f x = Inr k1 \<and>
        f (fst x + hh / 2 * fst k1, snd x + hh / 2 * snd k1) = Inr k2 \<and>
        f (fst x + hh / 2 * fst k2, snd x + hh / 2 * snd k2) = Inr k3 \<and>
        f (fst x + hh * fst k3, snd x + hh * snd k3) = Inr k4)"

definition rk4_next :: "real \<Rightarrow> vec2 \<Rightarrow> vec2 \<times> vec2 \<times> vec2 \<times> vec2 \<Rightarrow> vec2" where
  "rk4_next hh x ks =
     (case ks of (k1, k2, k3, k4) \<Rightarrow>
        (fst x + hh / 6 * (fst k1 + 2 * fst k2 + 2 * fst k3 + fst k4),
         snd x + hh / 6 * (snd k1 + 2 * snd k2 + 2 * snd k3 + snd k4)))"

text \<open>The first twenty slots of the coefficient vector, as section 6 lists them.\<close>

definition coefficients :: "(string \<rightharpoonup> real) \<Rightarrow> real list" where
  "coefficients ps =
     map (\<lambda>k. the (ps k))
       [''c_R'', ''c_Q10_R'', ''c_epsilon'', ''c_w'', ''g_bnd'', ''g_stm'', ''c_car_1'',
        ''c_car_2'', ''c_car_3'', ''c_gr_max'', ''c_r'', ''c_resp_sht'', ''c_resp_rt'',
        ''c_Q10_gr'', ''c_Q10_resp'', ''c_t'', ''c_k'', ''c_lar'', ''c_a'', ''c_b'']"

text \<open>The override after a run of calls: the last value a setter call accepted.\<close>

fun override_after :: "call list \<Rightarrow> real \<Rightarrow> real" where
  "override_after [] v = v"
| "override_after (Set_external_light_interception a # cs) v =
     override_after cs (if 0 \<le> a \<and> a \<le> 1 then a else v)"
| "override_after (c # cs) v = override_after cs v"

text \<open>
  What a constructed object keeps through its life: the required keys are in the
  store, and the vector is the store's values followed by the override.
\<close>

definition consistent :: "model \<Rightarrow> bool" where
  "consistent self \<longleftrightarrow>
     required_params \<subseteq> dom (parameters self) \<and>
     params_array self = coefficients (parameters self) @ [external_light_interception self]"

text \<open>A dictionary with exactly the twenty keys, bound to the given values in vector order.\<close>

definition params_of :: "real list \<Rightarrow> (string \<rightharpoonup> real)" where
  "params_of vs = map_of (zip param_order vs)"


subsection \<open>The rate in the dark\<close>




subsection \<open>A concrete crop\<close>

text \<open>
  Coefficients with easy arithmetic, used to run the model on concrete inputs: every
  temperature response is \<open>1\<close>, maintenance respiration is \<open>1/6000\<close> per second for
  shoot and root, and the maximum growth rate \<open>g\<close> is left open. The object is what
  the constructor builds from them for a dry weight of \<open>5\<close>, density \<open>1\<close> and a control
  rate of one minute.
\<close>

definition example_coefficients :: "real \<Rightarrow> real list" where
  "example_coefficients g =
     [0, 1, 1, 1, 1, 1, 0, 0, 1, g, 1, 1 / 6000, 1 / 6000, 1, 1, 1 / 2, 1, 1, 1, 1]"

definition example_model :: "real \<Rightarrow> int \<Rightarrow> model" where
  "example_model g flag =
     \<lparr>parameters = params_of (example_coefficients g), light_interception_method = flag,
      external_light_interception = 0, state0 = 5, state = (1, 4), h = 60,
      plant_density = 1, params_array = example_coefficients g @ [0]\<rparr>"

section \<open>Basic facts\<close>

subsection \<open>Arithmetic and the rate function\<close>

lemma raise_or_Inr [simp]: "raise_or (Inr v) f = f v"
  by (simp add: raise_or_def)

lemma raise_or_Inl [simp]: "raise_or (Inl e) f = Inl e"
  by (simp add: raise_or_def)

lemma truediv_zero [simp]: "truediv a 0 = Inl ZeroDivisionError"
  by (simp add: truediv_def)

lemma truediv_nonzero: "b \<noteq> 0 \<Longrightarrow> truediv a b = Inr (a / b)"
  by (simp add: truediv_def)

lemma beer_lambert_eq: "beer_lambert lai k = 1 - exp (- k * lai)"
  by (simp add: beer_lambert_def)

lemma model_core_returns:
  assumes len: "21 \<le> length c" and nz: "0 \<notin> set (divisors x u c)"
  shows "model_core x u c mode = Inr (rate_reference x u c mode)"
proof -
  obtain t r co2 pd where u: "u = (t, r, co2, pd)" by (cases u) auto
  from len have l: "\<not> length c < 20" "\<not> length c < 21" by simp_all
  from nz u show ?thesis
    unfolding model_core_def rate_reference_def divisors_def u
    by (simp add: l Let_def truediv_nonzero light_interception_def beer_lambert_eq
        vmul_def vdiv_def mult.commute)
qed


lemma model_core_raises:
  assumes len: "21 \<le> length c" and z: "0 \<in> set (divisors x u c)"
  shows "model_core x u c mode = Inl ZeroDivisionError"
proof -
  obtain t r co2 pd where u: "u = (t, r, co2, pd)" by (cases u) auto
  from len have l: "\<not> length c < 20" "\<not> length c < 21" by simp_all
  from z u show ?thesis
    unfolding model_core_def divisors_def u
    by (auto simp add: l Let_def truediv_def raise_or_def light_interception_def
        vmul_def vdiv_def mult.commute)
qed

lemma zero_density_divisor: "0 \<in> set (divisors x (t, r, co2, 0) c)"
  by (simp add: divisors_def Let_def)

lemma zero_density_raises:
  "21 \<le> length c \<Longrightarrow> model_core x (t, r, co2, 0) c mode = Inl ZeroDivisionError"
  by (rule model_core_raises) (simp_all add: zero_density_divisor)

subsection \<open>Keys, validation and the coefficient vector\<close>

lemma set_param_order: "set param_order = required_params"
  unfolding param_order_def required_params_def by (simp add: insert_commute)

lemma distinct_param_order: "distinct param_order"
  unfolding param_order_def by simp

lemma length_param_order: "length param_order = 20"
  unfolding param_order_def by simp

lemma card_required_params: "card required_params = 20"
  using distinct_card [OF distinct_param_order] by (simp add: set_param_order length_param_order)

lemma lookup_all_present:
  "set ks \<subseteq> dom ps \<Longrightarrow> lookup_all ps ks = Inr (map (\<lambda>k. the (ps k)) ks)"
  by (induction ks) auto

lemma coefficients_order: "coefficients ps = map (\<lambda>k. the (ps k)) param_order"
  by (simp add: coefficients_def param_order_def)

lemma length_coefficients: "length (coefficients ps) = 20"
  by (simp add: coefficients_def)

lemma update_last_slot: "(coefficients ps @ [a])[20 := v] = coefficients ps @ [v]"
  using list_update_length [of "coefficients ps" a "[]" v] by (simp add: length_coefficients)

lemma stored_coefficients:
  assumes "required_params \<subseteq> dom ps"
  shows "map ps param_order = map Some (coefficients ps)"
proof -
  have "\<And>k. k \<in> set param_order \<Longrightarrow> ps k = Some (the (ps k))"
    using assms by (auto simp: set_param_order)
  then show ?thesis by (simp add: coefficients_order)
qed

lemma init_params_array_present:
  "required_params \<subseteq> dom (parameters self) \<Longrightarrow>
   init_params_array self =
     (None, self\<lparr>params_array := coefficients (parameters self) @ [external_light_interception self]\<rparr>)"
  by (simp add: init_params_array_def coefficients_order lookup_all_present set_param_order)

lemma validate_inputs_None:
  "validate_inputs w d ps = None \<longleftrightarrow> 0 < w \<and> 0 < d \<and> required_params \<subseteq> dom ps"
  by (auto simp: validate_inputs_def Let_def)

lemma init_accepts:
  "0 < w \<Longrightarrow> 0 < d \<Longrightarrow> required_params \<subseteq> dom ps \<Longrightarrow>
   init w d ps cr flag =
     Inr \<lparr>parameters = ps, light_interception_method = flag, external_light_interception = 0,
          state0 = w, state = (w * 0.2, w * 0.8), h = cr * 60, plant_density = d,
          params_array = coefficients ps @ [0]\<rparr>"
  using validate_inputs_None [of w d ps]
  by (simp add: init_def init_params_array_present)


subsection \<open>Frames\<close>

lemma step_frame: "snd (step u self) = self\<lparr>state := state (snd (step u self))\<rparr>"
  by (simp add: step_def Let_def split: sum.splits)

lemma step_fields:
  "parameters (snd (step u self)) = parameters self"
  "params_array (snd (step u self)) = params_array self"
  "external_light_interception (snd (step u self)) = external_light_interception self"
  "light_interception_method (snd (step u self)) = light_interception_method self"
  "state0 (snd (step u self)) = state0 self"
  "h (snd (step u self)) = h self"
  "plant_density (snd (step u self)) = plant_density self"
  by (simp_all add: step_def Let_def split: sum.splits)

lemma update_parameters_accepts:
  "dom new \<subseteq> dom (parameters self) \<Longrightarrow> required_params \<subseteq> dom (parameters self) \<Longrightarrow>
   update_parameters new self =
     (None, self\<lparr>parameters := parameters self ++ new,
                 params_array := coefficients (parameters self ++ new)
                                   @ [external_light_interception self]\<rparr>)"
proof -
  assume known: "dom new \<subseteq> dom (parameters self)"
    and req: "required_params \<subseteq> dom (parameters self)"
  from known have "dom new - dom (parameters self) = {}" by blast
  moreover from req
  have "required_params \<subseteq> dom (parameters (self\<lparr>parameters := parameters self ++ new\<rparr>))"
    by auto
  ultimately show ?thesis
    by (simp add: update_parameters_def init_params_array_present)
qed

lemma update_parameters_rejects:
  "\<not> dom new \<subseteq> dom (parameters self) \<Longrightarrow>
   update_parameters new self =
     (Some (ValueError (Unknown_parameters (dom new - dom (parameters self)))), self)"
  by (auto simp: update_parameters_def Let_def)

lemma exec_consistent: "consistent self \<Longrightarrow> consistent (snd (exec c self))"
proof (cases c)
  case (Step u)
  assume "consistent self"
  then show ?thesis using Step by (simp add: consistent_def step_fields)
next
  case (Update_parameters new)
  assume c: "consistent self"
  show ?thesis
  proof (cases "dom new \<subseteq> dom (parameters self)")
    case True
    with c show ?thesis using Update_parameters
      by (auto simp: consistent_def update_parameters_accepts)
  next
    case False
    with c show ?thesis using Update_parameters
      by (simp add: update_parameters_rejects)
  qed
next
  case (Set_external_light_interception v)
  assume "consistent self"
  then show ?thesis using Set_external_light_interception
    by (auto simp: consistent_def set_external_light_interception_def Let_def
        length_coefficients update_last_slot)
next
  case Reset
  assume "consistent self"
  then show ?thesis using Reset by (simp add: consistent_def reset_def)
qed

lemma run_consistent: "consistent self \<Longrightarrow> consistent (run cs self)"
  by (induction cs arbitrary: self) (simp_all add: exec_consistent)

lemma init_consistent: "init w d ps cr flag = Inr self \<Longrightarrow> consistent self"
proof -
  assume i: "init w d ps cr flag = Inr self"
  then have "validate_inputs w d ps = None"
    by (auto simp: init_def split: option.splits)
  then have "0 < w" "0 < d" "required_params \<subseteq> dom ps"
    by (simp_all add: validate_inputs_None)
  with i show ?thesis by (auto simp: init_accepts consistent_def)
qed

lemma exec_constant_fields:
  "consistent self \<Longrightarrow>
   state0 (snd (exec c self)) = state0 self \<and> h (snd (exec c self)) = h self \<and>
   plant_density (snd (exec c self)) = plant_density self \<and>
   light_interception_method (snd (exec c self)) = light_interception_method self"
proof (cases c)
  case (Update_parameters new)
  assume "consistent self"
  then show ?thesis using Update_parameters
    by (cases "dom new \<subseteq> dom (parameters self)")
       (simp_all add: consistent_def update_parameters_accepts update_parameters_rejects)
qed (simp_all add: step_fields set_external_light_interception_def Let_def reset_def)

lemma run_constant_fields:
  "consistent self \<Longrightarrow>
   state0 (run cs self) = state0 self \<and> h (run cs self) = h self \<and>
   plant_density (run cs self) = plant_density self \<and>
   light_interception_method (run cs self) = light_interception_method self"
proof (induction cs arbitrary: self)
  case Nil
  then show ?case by simp
next
  case (Cons c cs)
  from Cons.prems have "consistent (snd (exec c self))" by (rule exec_consistent)
  from Cons.IH [OF this] exec_constant_fields [OF Cons.prems, of c]
  show ?case by simp
qed

lemma exec_override:
  "consistent self \<Longrightarrow>
   external_light_interception (snd (exec c self)) =
     override_after [c] (external_light_interception self)"
proof (cases c)
  case (Update_parameters new)
  assume "consistent self"
  then show ?thesis using Update_parameters
    by (cases "dom new \<subseteq> dom (parameters self)")
       (simp_all add: consistent_def update_parameters_accepts update_parameters_rejects)
next
  case (Set_external_light_interception v)
  assume "consistent self"
  then show ?thesis using Set_external_light_interception
    by (simp add: consistent_def set_external_light_interception_def Let_def)
qed (simp_all add: step_fields reset_def)

lemma override_after_Cons: "override_after (c # cs) v = override_after cs (override_after [c] v)"
  by (cases c) simp_all

lemma run_override:
  "consistent self \<Longrightarrow>
   external_light_interception (run cs self) =
     override_after cs (external_light_interception self)"
proof (induction cs arbitrary: self)
  case Nil
  then show ?case by simp
next
  case (Cons c cs)
  from Cons.prems have "consistent (snd (exec c self))" by (rule exec_consistent)
  from Cons.IH [OF this] exec_override [OF Cons.prems, of c]
  show ?case by (simp add: override_after_Cons [of c cs])
qed

subsection \<open>Constructed objects and the concrete crop\<close>

lemma fpow_simps [simp]: "fpow a 0 = 1" "fpow 1 b = 1"
  by (simp_all add: fpow_def)

lemma dom_params_of: "length vs = 20 \<Longrightarrow> dom (params_of vs) = required_params"
  by (simp add: params_of_def length_param_order set_param_order [symmetric])

lemma coefficients_params_of:
  assumes "length vs = 20"
  shows "coefficients (params_of vs) = vs"
proof (rule nth_equalityI)
  show "length (coefficients (params_of vs)) = length vs"
    using assms by (simp add: length_coefficients)
next
  fix i assume "i < length (coefficients (params_of vs))"
  then have i: "i < 20" by (simp add: length_coefficients)
  with assms have "map_of (zip param_order vs) (param_order ! i) = Some (vs ! i)"
    by (intro map_of_zip_nth) (simp_all add: length_param_order distinct_param_order)
  with i show "coefficients (params_of vs) ! i = vs ! i"
    by (simp add: coefficients_order params_of_def length_param_order)
qed

lemma init_example: "init 5 1 (params_of (example_coefficients g)) 1 flag = Inr (example_model g flag)"
proof -
  have l: "length (example_coefficients g) = 20" by (simp add: example_coefficients_def)
  show ?thesis
    by (simp add: init_accepts dom_params_of [OF l] coefficients_params_of [OF l]
        example_model_def)
qed

lemma example_core:
  "snd x + fst x \<noteq> 0 \<Longrightarrow>
   model_core x (20, 0, 1, 1) (example_coefficients g @ [a]) flag
     = Inr (- (g * (fst x / (snd x + fst x)) * snd x) - snd x / 6000,
            g * (fst x / (snd x + fst x)) * snd x)"
  by (subst model_core_returns)
     (simp_all add: example_coefficients_def rate_reference_def divisors_def Let_def)

lemma example_core_no_co2:
  "model_core x (20, 0, 0, 1) (example_coefficients g @ [a]) flag = Inl ZeroDivisionError"
  by (rule model_core_raises) (simp_all add: example_coefficients_def divisors_def Let_def)

lemma reachable_consistent:
  "init w d ps cr flag = Inr self0 \<Longrightarrow> consistent (run cs self0)"
  by (rule run_consistent) (rule init_consistent)

lemma init_fields:
  assumes "init w d ps cr flag = Inr self0"
  shows "state0 self0 = w" "h self0 = cr * 60" "plant_density self0 = d"
    "light_interception_method self0 = flag" "state self0 = (w * 0.2, w * 0.8)"
    "external_light_interception self0 = 0" "parameters self0 = ps"
proof -
  from assms have "validate_inputs w d ps = None"
    by (auto simp: init_def split: option.splits)
  then have "0 < w" "0 < d" "required_params \<subseteq> dom ps"
    by (simp_all add: validate_inputs_None)
  with assms have "self0 = \<lparr>parameters = ps, light_interception_method = flag,
      external_light_interception = 0, state0 = w, state = (w * 0.2, w * 0.8), h = cr * 60,
      plant_density = d, params_array = coefficients ps @ [0]\<rparr>"
    by (simp add: init_accepts)
  then show "state0 self0 = w" "h self0 = cr * 60" "plant_density self0 = d"
    "light_interception_method self0 = flag" "state self0 = (w * 0.2, w * 0.8)"
    "external_light_interception self0 = 0" "parameters self0 = ps"
    by simp_all
qed

lemma reachable_fields:
  assumes "init w d ps cr flag = Inr self0"
  shows "state0 (run cs self0) = w" "h (run cs self0) = cr * 60"
    "plant_density (run cs self0) = d" "light_interception_method (run cs self0) = flag"
  using run_constant_fields [OF init_consistent [OF assms], of cs] init_fields [OF assms]
  by simp_all

lemma reachable_length:
  "init w d ps cr flag = Inr self0 \<Longrightarrow> length (params_array (run cs self0)) = 21"
  using reachable_consistent [of w d ps cr flag self0 cs]
  by (simp add: consistent_def length_coefficients)


subsection \<open>The rate function: what raises, what is not read\<close>

lemma model_core_cases:
  assumes "21 \<le> length c"
  shows "model_core x u c mode =
           (if 0 \<in> set (divisors x u c) then Inl ZeroDivisionError
            else Inr (rate_reference x u c mode))"
  using model_core_returns [OF assms] model_core_raises [OF assms] by simp

lemma model_core_error:
  "21 \<le> length c \<Longrightarrow> model_core x u c mode = Inl e \<Longrightarrow> e = ZeroDivisionError"
  by (simp add: model_core_cases split: if_splits)

lemma positive_density_divisor:
  "0 \<notin> set (divisors x u c) \<Longrightarrow> snd (snd (snd u)) \<noteq> 0"
  by (cases u) (auto simp: divisors_def Let_def)

lemma model_core_ignores_override:
  "model_core x u (c[20 := b]) 0 = model_core x u c 0"
  by (simp add: model_core_def light_interception_def Let_def split: prod.splits)

subsection \<open>One step\<close>

lemma step_returns:
  assumes "rk4_stages (real_of_int (h self))
             (\<lambda>y. model_core y u (params_array self) (light_interception_method self))
             (state self) ks"
  shows "step u self = (None, self\<lparr>state := rk4_next (real_of_int (h self)) (state self) ks\<rparr>)"
proof -
  obtain k1 k2 k3 k4 where ks: "ks = (k1, k2, k3, k4)" by (cases ks) auto
  from assms show ?thesis
    unfolding ks rk4_stages_def rk4_next_def step_def
    by (simp add: Let_def vadd_def smul_def)
qed

lemma step_raises:
  assumes len: "21 \<le> length (params_array self)"
    and none: "\<forall>ks. \<not> rk4_stages (real_of_int (h self))
             (\<lambda>y. model_core y u (params_array self) (light_interception_method self))
             (state self) ks"
  shows "step u self = (Some ZeroDivisionError, self)"
proof -
  let ?f = "\<lambda>y. model_core y u (params_array self) (light_interception_method self)"
  have e: "\<And>y e. ?f y = Inl e \<Longrightarrow> e = ZeroDivisionError"
    using len by (rule model_core_error)
  have *: "\<And>k1 k2 k3 k4. \<not> rk4_stages (real_of_int (h self)) ?f (state self) (k1, k2, k3, k4)"
    using none by blast
  show ?thesis
    using * unfolding rk4_stages_def step_def
    by (auto simp: Let_def vadd_def smul_def split: sum.splits dest: e)
qed

lemma step_ignores_override:
  assumes "light_interception_method self = 0"
  shows "fst (step u (self\<lparr>external_light_interception := b,
                           params_array := (params_array self)[20 := b]\<rparr>)) = fst (step u self)
       \<and> state (snd (step u (self\<lparr>external_light_interception := b,
                           params_array := (params_array self)[20 := b]\<rparr>)))
           = state (snd (step u self))"
  using assms by (simp add: step_def model_core_ignores_override Let_def split: sum.splits)

lemma set_external_light_interception_accepts:
  "0 \<le> v \<Longrightarrow> v \<le> 1 \<Longrightarrow> length (params_array self) = 21 \<Longrightarrow>
   set_external_light_interception v self =
     (None, self\<lparr>external_light_interception := v,
                 params_array := (params_array self)[20 := v]\<rparr>)"
  by (auto simp: set_external_light_interception_def Let_def)


subsection \<open>A step in the dark from an empty pool\<close>













section \<open>The statements of the specification\<close>

text \<open>
  \<^bold>\<open>C1, as stated, fails.\<close> The statement excludes a zero density only. With a density of
  \<open>1\<close>, no CO2 and a respiration reference of \<open>0\<close> the quotient of the light-use
  efficiency has the divisor \<open>co2 + 2R = 0\<close>: the rate function raises
  \<^verbatim>\<open>ZeroDivisionError\<close> and returns nothing, so not the closed form.
\<close>

theorem model_core_zero_divisor_counterexample:
  "model_core (1, 4) (20, 0, 0, 1) (example_coefficients (1 / 600) @ [0]) 0
     = Inl ZeroDivisionError
   \<and> model_core (1, 4) (20, 0, 0, 1) (example_coefficients (1 / 600) @ [0]) 0
     \<noteq> Inr (rate_reference (1, 4) (20, 0, 0, 1) (example_coefficients (1 / 600) @ [0]) 0)"
  by (simp add: example_core_no_co2)

text \<open>
  \<^bold>\<open>C1, amended.\<close> For every state, control vector and coefficient vector of 21
  slots: when none of the eight scalar divisors of the closed form is zero (the
  density is then not zero either), the rate function returns the closed form of the
  specification; when one of them is zero it raises \<^verbatim>\<open>ZeroDivisionError\<close>.
\<close>

theorem model_core_refines_reference:
  assumes "length c = 21"
  shows "model_core x u c mode =
           (if 0 \<in> set (divisors x u c) then Inl ZeroDivisionError
            else Inr (rate_reference x u c mode))
       \<and> (0 \<notin> set (divisors x u c) \<longrightarrow> snd (snd (snd u)) \<noteq> 0)"
  using assms model_core_cases [of c x u mode] positive_density_divisor [of x u c] by simp

theorem model_core_refines_reference_witness:
  "model_core (1, 4) (20, 0, 1, 1) (example_coefficients (1 / 600) @ [0]) 0
     = Inr (- 1 / 500, 1 / 750)"
  using model_core_refines_reference
          [of "example_coefficients (1 / 600) @ [0]" "(1, 4)" "(20, 0, 1, 1)" 0]
  by (simp add: example_coefficients_def divisors_def rate_reference_def Let_def)

text \<open>
  \<^bold>\<open>C2, as stated, fails.\<close> On the object the constructor builds from the concrete
  coefficients, a control vector without CO2 makes the first stage evaluation raise:
  there is no \<open>k1\<close>, \<^verbatim>\<open>step\<close> raises \<^verbatim>\<open>ZeroDivisionError\<close> and the object is as before.
\<close>

theorem step_is_rk4_counterexample:
  "init 5 1 (params_of (example_coefficients (1 / 600))) 1 0 = Inr (example_model (1 / 600) 0)
   \<and> model_core (state (example_model (1 / 600) 0)) (20, 0, 0, 1)
        (params_array (example_model (1 / 600) 0)) 0 = Inl ZeroDivisionError
   \<and> step (20, 0, 0, 1) (example_model (1 / 600) 0)
       = (Some ZeroDivisionError, example_model (1 / 600) 0)"
  by (simp add: init_example step_def example_model_def example_core_no_co2)

text \<open>
  \<^bold>\<open>C2, amended.\<close> On an object built by the constructor with control rate \<open>cr\<close> and
  used through its methods, with \<open>h = cr * 60\<close>: when the four stage evaluations of
  the rate function return \<open>k1\<close>, \<open>k2\<close>, \<open>k3\<close>, \<open>k4\<close>, each with the same control
  vector, coefficient vector and mode, one call of \<^verbatim>\<open>step\<close> replaces the state \<open>x\<close> by
  \<open>x + h/6 * (k1 + 2 k2 + 2 k3 + k4)\<close> and changes nothing else; when they do not,
  \<^verbatim>\<open>step\<close> raises \<^verbatim>\<open>ZeroDivisionError\<close> and leaves the object as it was.
\<close>

theorem step_is_rk4:
  assumes "init w d ps cr flag = Inr self0" and "self = run cs self0"
  shows "(rk4_stages (real_of_int (cr * 60)) (\<lambda>y. model_core y u (params_array self) flag)
            (state self) ks \<longrightarrow>
          step u self =
            (None, self\<lparr>state := rk4_next (real_of_int (cr * 60)) (state self) ks\<rparr>))
       \<and> ((\<forall>ks. \<not> rk4_stages (real_of_int (cr * 60))
                   (\<lambda>y. model_core y u (params_array self) flag) (state self) ks) \<longrightarrow>
          step u self = (Some ZeroDivisionError, self))"
proof -
  from assms have l: "21 \<le> length (params_array self)" by (simp add: reachable_length)
  from assms have m: "light_interception_method self = flag" "h self = cr * 60"
    by (simp_all add: reachable_fields)
  show ?thesis
    using step_returns [of self u ks] step_raises [OF l, of u] unfolding m by blast
qed

theorem step_is_rk4_witness:
  "step (20, 0, 1, 1) (example_model 0 0) = (None, (example_model 0 0)\<lparr>state := (24 / 25, 4)\<rparr>)"
proof -
  have i: "init 5 1 (params_of (example_coefficients 0)) 1 0 = Inr (example_model 0 0)"
    by (rule init_example)
  have r: "example_model 0 0 = run [] (example_model 0 0)" by simp
  have s: "rk4_stages (real_of_int (1 * 60))
             (\<lambda>y. model_core y (20, 0, 1, 1) (params_array (example_model 0 0)) 0)
             (state (example_model 0 0))
             ((- 1 / 1500, 0), (- 1 / 1500, 0), (- 1 / 1500, 0), (- 1 / 1500, 0))"
    by (simp add: rk4_stages_def example_model_def example_core)
  from step_is_rk4 [OF i r, of "(20, 0, 1, 1)"
      "((- 1 / 1500, 0), (- 1 / 1500, 0), (- 1 / 1500, 0), (- 1 / 1500, 0))"] s
  show ?thesis by (simp add: rk4_next_def example_model_def)
qed

text \<open>
  \<^bold>\<open>C3, as stated, fails.\<close> With every key missing and a dry weight of \<open>0\<close> the
  constructor raises the dry-weight message, and with a positive dry weight and a
  density of \<open>0\<close> the density message: keys are missing, and the message names none.
\<close>

theorem validation_message_counterexample:
  "\<not> required_params \<subseteq> dom (Map.empty :: string \<rightharpoonup> real)
   \<and> init 0 1 Map.empty 1 0 = Inl (ValueError Plant_dry_weight_must_be_positive)
   \<and> init 5 0 Map.empty 1 0 = Inl (ValueError Plant_density_must_be_positive)"
  by (simp add: init_def validate_inputs_def required_params_def)

text \<open>
  \<^bold>\<open>C3, amended.\<close> Construction fails with a \<^verbatim>\<open>ValueError\<close> exactly when the initial
  dry weight is not positive, or the density is not positive, or one of the 20
  required keys is absent from the parameters; a failing construction yields no
  object. The three checks run in this order and the first that fails gives the
  message: the dry-weight message when the weight is not positive, the density message
  when the weight is positive and the density is not, and the message carrying the
  set of the missing keys when both are positive and keys are missing.
\<close>

theorem validation_fails_in_order:
  "(\<exists>e. validate_inputs w d ps = Some e) = (w \<le> 0 \<or> d \<le> 0 \<or> \<not> required_params \<subseteq> dom ps)
   \<and> (\<exists>msg. init w d ps cr flag = Inl (ValueError msg))
       = (w \<le> 0 \<or> d \<le> 0 \<or> \<not> required_params \<subseteq> dom ps)
   \<and> (\<exists>self. init w d ps cr flag = Inr self)
       = (\<not> (w \<le> 0 \<or> d \<le> 0 \<or> \<not> required_params \<subseteq> dom ps))
   \<and> (w \<le> 0 \<longrightarrow> init w d ps cr flag = Inl (ValueError Plant_dry_weight_must_be_positive))
   \<and> (0 < w \<and> d \<le> 0 \<longrightarrow>
        init w d ps cr flag = Inl (ValueError Plant_density_must_be_positive))
   \<and> (0 < w \<and> 0 < d \<and> \<not> required_params \<subseteq> dom ps \<longrightarrow>
        init w d ps cr flag =
          Inl (ValueError (Missing_required_parameters (required_params - dom ps))))
   \<and> card required_params = 20"
proof -
  let ?bad = "w \<le> 0 \<or> d \<le> 0 \<or> \<not> required_params \<subseteq> dom ps"
  have v: "(\<exists>e. validate_inputs w d ps = Some e) = ?bad"
    using validate_inputs_None [of w d ps] by (cases "validate_inputs w d ps") auto
  have bad: "?bad \<Longrightarrow> \<exists>msg. init w d ps cr flag = Inl (ValueError msg)"
    by (auto simp: init_def validate_inputs_def Let_def)
  have good: "\<not> ?bad \<Longrightarrow> \<exists>self. init w d ps cr flag = Inr self"
    using init_accepts [of w d ps cr flag] by auto
  have weight: "w \<le> 0 \<longrightarrow>
        init w d ps cr flag = Inl (ValueError Plant_dry_weight_must_be_positive)"
    by (simp add: init_def validate_inputs_def)
  have density: "0 < w \<and> d \<le> 0 \<longrightarrow>
        init w d ps cr flag = Inl (ValueError Plant_density_must_be_positive)"
    by (simp add: init_def validate_inputs_def)
  have missing: "0 < w \<and> 0 < d \<and> \<not> required_params \<subseteq> dom ps \<longrightarrow>
        init w d ps cr flag =
          Inl (ValueError (Missing_required_parameters (required_params - dom ps)))"
    by (auto simp: init_def validate_inputs_def Let_def)
  from bad good have i1: "(\<exists>msg. init w d ps cr flag = Inl (ValueError msg)) = ?bad"
    by (cases ?bad) auto
  from bad good have i2: "(\<exists>self. init w d ps cr flag = Inr self) = (\<not> ?bad)"
    by (cases ?bad) auto
  show ?thesis using v i1 i2 weight density missing card_required_params by blast
qed

theorem validation_fails_in_order_witness:
  "init 5 1 [''c_R'' \<mapsto> 1] 1 0 =
     Inl (ValueError (Missing_required_parameters (required_params - {''c_R''})))
   \<and> init 0 1 [''c_R'' \<mapsto> 1] 1 0 = Inl (ValueError Plant_dry_weight_must_be_positive)
   \<and> init 5 0 [''c_R'' \<mapsto> 1] 1 0 = Inl (ValueError Plant_density_must_be_positive)"
  using validation_fails_in_order [of 5 1 "[''c_R'' \<mapsto> 1]" 1 0]
    validation_fails_in_order [of 0 1 "[''c_R'' \<mapsto> 1]" 1 0]
    validation_fails_in_order [of 5 0 "[''c_R'' \<mapsto> 1]" 1 0]
  by (simp add: required_params_def)

text \<open>
  \<^bold>\<open>C4.\<close> On an object built by the constructor and used through its methods, an
  update with a key the store does not have raises a \<^verbatim>\<open>ValueError\<close> naming the unknown
  keys and leaves the whole object, so the store and the coefficient vector, as it
  was. An update whose keys are all known merges the values into the store and
  rebuilds the vector from the merged store.
\<close>

theorem update_parameters_all_or_nothing:
  assumes "init w d ps cr flag = Inr self0" and "self = run cs self0"
  shows "(\<not> dom new \<subseteq> dom (parameters self) \<longrightarrow>
            update_parameters new self =
              (Some (ValueError (Unknown_parameters (dom new - dom (parameters self)))), self))
       \<and> (dom new \<subseteq> dom (parameters self) \<longrightarrow>
            update_parameters new self =
              (None, self\<lparr>parameters := parameters self ++ new,
                          params_array := coefficients (parameters self ++ new)
                                            @ [external_light_interception self]\<rparr>))"
proof -
  from assms have "consistent self" by (simp add: reachable_consistent)
  then have "required_params \<subseteq> dom (parameters self)" by (simp add: consistent_def)
  then show ?thesis
    by (simp add: update_parameters_accepts update_parameters_rejects)
qed

theorem update_parameters_all_or_nothing_witness:
  "update_parameters [''c_leaf'' \<mapsto> 2] (example_model 0 0) =
     (Some (ValueError (Unknown_parameters {''c_leaf''})), example_model 0 0)
   \<and> update_parameters [''c_R'' \<mapsto> 2] (example_model 0 0) =
     (None, (example_model 0 0)\<lparr>parameters := (params_of (example_coefficients 0))(''c_R'' \<mapsto> 2),
         params_array := 2 # tl (example_coefficients 0) @ [0]\<rparr>)"
proof -
  have i: "init 5 1 (params_of (example_coefficients 0)) 1 0 = Inr (example_model 0 0)"
    by (rule init_example)
  have r: "example_model 0 0 = run [] (example_model 0 0)" by simp
  have l: "length (example_coefficients 0) = 20" by (simp add: example_coefficients_def)
  have d: "dom (parameters (example_model 0 0)) = required_params"
    by (simp add: example_model_def dom_params_of [OF l])
  have c: "coefficients ((params_of (example_coefficients 0))(''c_R'' \<mapsto> 2))
             = 2 # tl (example_coefficients 0)"
    using coefficients_params_of [OF l]
    by (simp add: coefficients_def example_coefficients_def)
  have u: "\<not> dom [''c_leaf'' \<mapsto> (2::real)] \<subseteq> dom (parameters (example_model 0 0))"
    by (simp add: d required_params_def)
  have k: "dom [''c_R'' \<mapsto> (2::real)] \<subseteq> dom (parameters (example_model 0 0))"
    by (simp add: d required_params_def)
  have m: "dom [''c_leaf'' \<mapsto> (2::real)] - dom (parameters (example_model 0 0)) = {''c_leaf''}"
    by (simp add: d required_params_def)
  from update_parameters_all_or_nothing [OF i r, of "[''c_leaf'' \<mapsto> 2]"] u m
  have 1: "update_parameters [''c_leaf'' \<mapsto> 2] (example_model 0 0) =
     (Some (ValueError (Unknown_parameters {''c_leaf''})), example_model 0 0)"
    by simp
  from update_parameters_all_or_nothing [OF i r, of "[''c_R'' \<mapsto> 2]"] k
  have 2: "update_parameters [''c_R'' \<mapsto> 2] (example_model 0 0) =
     (None, (example_model 0 0)\<lparr>parameters := (params_of (example_coefficients 0))(''c_R'' \<mapsto> 2),
         params_array := 2 # tl (example_coefficients 0) @ [0]\<rparr>)"
    using c by (simp add: example_model_def)
  from 1 2 show ?thesis by simp
qed

text \<open>
  \<^bold>\<open>C5.\<close> On an object constructed with dry weight \<open>w\<close>, after any finite sequence of
  \<^verbatim>\<open>step\<close> calls, \<^verbatim>\<open>reset\<close> returns normally and sets the state to
  \<open>(0.2 * w, 0.8 * w)\<close>, the state right after construction; the store, the
  coefficient vector and the light-interception mode stay as they are.
\<close>

theorem reset_restores_initial_split:
  assumes "init w d ps cr flag = Inr self0" and "self = run (map Step us) self0"
  shows "fst (reset self) = None
       \<and> state (snd (reset self)) = (0.2 * w, 0.8 * w)
       \<and> state (snd (reset self)) = state self0
       \<and> parameters (snd (reset self)) = parameters self
       \<and> params_array (snd (reset self)) = params_array self
       \<and> light_interception_method (snd (reset self)) = light_interception_method self"
  using reachable_fields(1) [OF assms(1), of "map Step us"] init_fields(5) [OF assms(1)] assms(2)
  by (simp add: reset_def)

theorem reset_restores_initial_split_witness:
  "state (snd (reset (run (map Step [(20, 0, 1, 1), (20, 0, 0, 1)]) (example_model 0 0)))) = (1, 4)"
  using reset_restores_initial_split [OF init_example [of 0 0] refl, of "[(20, 0, 1, 1), (20, 0, 0, 1)]"]
  by simp

text \<open>
  \<^bold>\<open>C6.\<close> The setter rejects a value outside \<open>[0, 1]\<close> with a \<^verbatim>\<open>ValueError\<close> and
  leaves the object, so the stored override, unchanged. A value inside is stored, in
  the attribute and in slot 20 of the vector, and in External mode (a flag other than
  \<open>0\<close>) the light-interception term of the rate function is then that value for
  every state.
\<close>

theorem set_external_light_interception_range:
  assumes "init w d ps cr flag = Inr self0" and "self = run cs self0"
  shows "(\<not> (0 \<le> v \<and> v \<le> 1) \<longrightarrow>
            set_external_light_interception v self =
              (Some (ValueError Light_interception_must_be_between_0_and_1), self))
       \<and> (0 \<le> v \<and> v \<le> 1 \<longrightarrow>
            fst (set_external_light_interception v self) = None
            \<and> external_light_interception (snd (set_external_light_interception v self)) = v
            \<and> params_array (snd (set_external_light_interception v self)) ! 20 = v
            \<and> (flag \<noteq> 0 \<longrightarrow>
                 light_interception x (params_array (snd (set_external_light_interception v self)))
                   (light_interception_method (snd (set_external_light_interception v self))) = v))"
proof -
  from assms have l: "length (params_array self) = 21" by (simp add: reachable_length)
  from assms have m: "light_interception_method self = flag" by (simp add: reachable_fields)
  from l have ne: "params_array self \<noteq> []" by auto
  show ?thesis
    by (simp add: set_external_light_interception_def Let_def l m ne light_interception_def)
qed

theorem set_external_light_interception_range_witness:
  "set_external_light_interception (3 / 2) (example_model 0 1) =
     (Some (ValueError Light_interception_must_be_between_0_and_1), example_model 0 1)
   \<and> set_external_light_interception (- 1 / 10) (example_model 0 1) =
     (Some (ValueError Light_interception_must_be_between_0_and_1), example_model 0 1)
   \<and> light_interception (7, 9)
        (params_array (snd (set_external_light_interception (42 / 100) (example_model 0 1)))) 1
      = 42 / 100"
proof -
  have i: "init 5 1 (params_of (example_coefficients 0)) 1 1 = Inr (example_model 0 1)"
    by (rule init_example)
  have r: "example_model 0 1 = run [] (example_model 0 1)" by simp
  have m: "light_interception_method
             (snd (set_external_light_interception (42 / 100) (example_model 0 1))) = 1"
    by (simp add: set_external_light_interception_def example_model_def Let_def)
  from set_external_light_interception_range [OF i r, of "3 / 2"]
    set_external_light_interception_range [OF i r, of "- 1 / 10"]
    set_external_light_interception_range [OF i r, of "42 / 100" "(7, 9)"] m
  show ?thesis by simp
qed




text \<open>
  \<^bold>\<open>C8.\<close> On an object constructed in Beer-Lambert mode (flag \<open>0\<close>) and used through
  its methods: a step after an accepted setter call raises or returns as a step
  without that call, and gives the same state; and so do steps from two objects
  that differ only in the stored override, whatever its value.
\<close>

theorem beer_lambert_step_ignores_override:
  assumes "init w d ps cr 0 = Inr self0" and "self = run cs self0"
  shows "(0 \<le> v \<and> v \<le> 1 \<longrightarrow>
            fst (set_external_light_interception v self) = None
            \<and> fst (step u (snd (set_external_light_interception v self))) = fst (step u self)
            \<and> state (snd (step u (snd (set_external_light_interception v self))))
                = state (snd (step u self)))
       \<and> fst (step u (self\<lparr>external_light_interception := b,
                             params_array := (params_array self)[20 := b]\<rparr>)) = fst (step u self)
       \<and> state (snd (step u (self\<lparr>external_light_interception := b,
                             params_array := (params_array self)[20 := b]\<rparr>)))
           = state (snd (step u self))"
proof -
  from assms have l: "length (params_array self) = 21" by (simp add: reachable_length)
  from assms have m: "light_interception_method self = 0" by (simp add: reachable_fields)
  show ?thesis
    using step_ignores_override [OF m]
    by (simp add: set_external_light_interception_accepts l)
qed

theorem beer_lambert_step_ignores_override_witness:
  "state (snd (step (20, 0, 1, 1)
            (snd (set_external_light_interception (42 / 100) (example_model 0 0)))))
     = state (snd (step (20, 0, 1, 1) (example_model 0 0)))"
proof -
  have i: "init 5 1 (params_of (example_coefficients 0)) 1 0 = Inr (example_model 0 0)"
    by (rule init_example)
  have r: "example_model 0 0 = run [] (example_model 0 0)" by simp
  from beer_lambert_step_ignores_override [OF i r, of "42 / 100" "(20, 0, 1, 1)"]
  show ?thesis by simp
qed

text \<open>
  \<^bold>\<open>C9.\<close> On an object built by the constructor and used through its methods, an
  update whose keys are all known returns normally and leaves the biomass state, the
  step interval, the density and the light-interception mode unchanged.
\<close>

theorem update_parameters_frame:
  assumes "init w d ps cr flag = Inr self0" and "self = run cs self0"
    and "dom new \<subseteq> dom (parameters self)"
  shows "fst (update_parameters new self) = None
       \<and> state (snd (update_parameters new self)) = state self
       \<and> h (snd (update_parameters new self)) = h self
       \<and> plant_density (snd (update_parameters new self)) = plant_density self
       \<and> light_interception_method (snd (update_parameters new self))
           = light_interception_method self"
proof -
  from assms(1,2) have "consistent self" by (simp add: reachable_consistent)
  then have "required_params \<subseteq> dom (parameters self)" by (simp add: consistent_def)
  with assms(3) show ?thesis by (simp add: update_parameters_accepts)
qed

theorem update_parameters_frame_witness:
  "fst (update_parameters [''c_b'' \<mapsto> 1 / 2] (example_model 0 0)) = None
   \<and> state (snd (update_parameters [''c_b'' \<mapsto> 1 / 2] (example_model 0 0))) = (1, 4)
   \<and> h (snd (update_parameters [''c_b'' \<mapsto> 1 / 2] (example_model 0 0))) = 60
   \<and> plant_density (snd (update_parameters [''c_b'' \<mapsto> 1 / 2] (example_model 0 0))) = 1
   \<and> light_interception_method (snd (update_parameters [''c_b'' \<mapsto> 1 / 2] (example_model 0 0))) = 0"
proof -
  have i: "init 5 1 (params_of (example_coefficients 0)) 1 0 = Inr (example_model 0 0)"
    by (rule init_example)
  have r: "example_model 0 0 = run [] (example_model 0 0)" by simp
  have l: "length (example_coefficients 0) = 20" by (simp add: example_coefficients_def)
  have k: "dom [''c_b'' \<mapsto> (1 / 2 :: real)] \<subseteq> dom (parameters (example_model 0 0))"
    by (simp add: example_model_def dom_params_of [OF l] required_params_def)
  from update_parameters_frame [OF i r k] show ?thesis
    by (simp add: example_model_def)
qed

text \<open>
  \<^bold>\<open>C10.\<close> After construction and after any sequence of method calls, so after every
  successful update, the coefficient vector has 21 slots; its first 20 are the
  store's values for the twenty names in the order listed, and slot 20 is the current
  override: \<open>0\<close> after construction, afterwards the last value a setter call
  accepted. Rebuilding the vector in an update keeps it.
\<close>

theorem coefficient_vector_invariant:
  assumes "init w d ps cr flag = Inr self0" and "self = run cs self0"
  shows "length (params_array self) = 21
       \<and> map (parameters self)
            [''c_R'', ''c_Q10_R'', ''c_epsilon'', ''c_w'', ''g_bnd'', ''g_stm'', ''c_car_1'',
             ''c_car_2'', ''c_car_3'', ''c_gr_max'', ''c_r'', ''c_resp_sht'', ''c_resp_rt'',
             ''c_Q10_gr'', ''c_Q10_resp'', ''c_t'', ''c_k'', ''c_lar'', ''c_a'', ''c_b'']
           = map Some (take 20 (params_array self))
       \<and> params_array self ! 20 = external_light_interception self
       \<and> external_light_interception self = override_after cs 0"
proof -
  from assms have c: "consistent self" by (simp add: reachable_consistent)
  from assms(1) have "consistent self0" by (rule init_consistent)
  then have "external_light_interception (run cs self0)
      = override_after cs (external_light_interception self0)"
    by (rule run_override)
  with assms have o: "external_light_interception self = override_after cs 0"
    by (simp add: init_fields)
  from c have p: "params_array self
      = coefficients (parameters self) @ [external_light_interception self]"
    and r: "required_params \<subseteq> dom (parameters self)"
    by (simp_all add: consistent_def)
  have 1: "length (params_array self) = 21"
    by (subst p) (simp add: length_coefficients)
  have "take 20 (params_array self) = coefficients (parameters self)"
    by (subst p) (simp add: length_coefficients)
  with stored_coefficients [OF r]
  have 2: "map (parameters self) param_order = map Some (take 20 (params_array self))"
    by simp
  have 3: "params_array self ! 20 = external_light_interception self"
    by (subst p) (simp add: nth_append length_coefficients)
  from 1 2 3 o show ?thesis unfolding param_order_def by simp
qed

theorem coefficient_vector_invariant_witness:
  "params_array (run [Set_external_light_interception (42 / 100),
                      Update_parameters [''c_a'' \<mapsto> 2],
                      Set_external_light_interception 2]
                   (example_model 0 0)) ! 20 = 42 / 100"
  using coefficient_vector_invariant [OF init_example [of 0 0] refl, of
     "[Set_external_light_interception (42 / 100), Update_parameters [''c_a'' \<mapsto> 2],
       Set_external_light_interception 2]"]
  by simp

end
